theory Spec2Isabelle
  imports Main "HOL-Library.Sublist"
begin

section \<open>TTVideoMaker: ledger, fetch, transform and discovery\<close>

text \<open>
  A shallow embedding of \<^verbatim>\<open>utils.py\<close>, \<^verbatim>\<open>editor.py\<close>, \<^verbatim>\<open>scraper.py\<close> and of the worker
  loop of \<^verbatim>\<open>main.py\<close>.

  \<^item> Python strings are lists of characters; a HOL character stands for the code point
    of the same number (0 to 255), and \<open>isspace\<close>, \<open>isdigit\<close> are Python's
    predicates on that range.
  \<^item> Everything the program touches outside itself is a field of the record \<open>world\<close>:
    the media files with their sizes, the paths \<^verbatim>\<open>os.remove\<close> refuses, the text of the
    ledger file, whether reading or appending it raises, and the messages emitted so far.
  \<^item> The external programs (yt-dlp, ffprobe, ffmpeg), the browser and two library
    functions are the fields of the record \<open>env\<close>: what a run of the program returns and
    what it leaves on disk is a parameter of every theorem.
  \<^item> A message is recorded with its level and the text of the source's format string;
    a placeholder whose value is a string of the model is filled in, any other
    placeholder is kept as it is written in the source. Status and progress updates of
    the user interface are not recorded.
  \<^item> Directories are not part of the state, but the calls of \<^verbatim>\<open>os.makedirs\<close> inside the
    functions are modelled: the world says for which directories the call raises.
\<close>

subsection \<open>Python strings\<close>

definition isspace :: "char \<Rightarrow> bool" where
  "isspace c = (c \<in> set [CHR 0x09, CHR 0x0A, CHR 0x0B, CHR 0x0C, CHR 0x0D, CHR 0x1C,
                          CHR 0x1D, CHR 0x1E, CHR 0x1F, CHR 0x20, CHR 0x85, CHR 0xA0])"

definition isdigit :: "char \<Rightarrow> bool" where
  "isdigit c = (let n = (of_char c :: nat) in (48 \<le> n \<and> n \<le> 57) \<or> n = 178 \<or> n = 179 \<or> n = 185)"

text \<open>\<^verbatim>\<open>s.strip()\<close>\<close>

definition strip :: "string \<Rightarrow> string" where
  "strip s = rev (dropWhile isspace (rev (dropWhile isspace s)))"

text \<open>\<^verbatim>\<open>s.split(sep)\<close> for a separator of one character.\<close>

fun split :: "char \<Rightarrow> string \<Rightarrow> string list" where
  "split sep [] = [[]]"
| "split sep (c # cs) =
     (if c = sep then [] # split sep cs
      else (case split sep cs of [] \<Rightarrow> [[c]] | l # ls \<Rightarrow> (c # l) # ls))"

text \<open>\<^verbatim>\<open>sub in s\<close>\<close>

fun contains :: "string \<Rightarrow> string \<Rightarrow> bool" where
  "contains sub [] = (sub = [])"
| "contains sub (c # cs) = (take (length sub) (c # cs) = sub \<or> contains sub cs)"

text \<open>\<^verbatim>\<open>str(i)\<close> for an integer.\<close>

fun digits :: "nat \<Rightarrow> string" where
  "digits n = (if n < 10 then [char_of (48 + n)] else digits (n div 10) @ [char_of (48 + n mod 10)])"

declare digits.simps [simp del]

definition str :: "int \<Rightarrow> string" where
  "str i = (if i < 0 then CHR ''-'' # digits (nat (- i)) else digits (nat i))"

text \<open>
  \<^verbatim>\<open>os.path.join(a, b)\<close> on a POSIX system, for a directory name \<open>a\<close> that is not empty
  and does not end in a slash: an absolute \<open>b\<close> discards \<open>a\<close>.
\<close>

definition path_join :: "string \<Rightarrow> string \<Rightarrow> string" where
  "path_join a b = (case b of CHR ''/'' # _ \<Rightarrow> b | _ \<Rightarrow> a @ ''/'' @ b)"

text \<open>
  The lines of a text file opened with universal newlines, without their line ends.
  Python turns \<^verbatim>\<open>\r\n\<close> and a lone \<^verbatim>\<open>\r\<close> into \<^verbatim>\<open>\n\<close> and yields the pieces between
  line ends; here every \<^verbatim>\<open>\r\<close> and every \<^verbatim>\<open>\n\<close> ends a piece. The two differ only in
  empty pieces, which the one reader of the file, \<open>get_processed_videos\<close>, drops.
\<close>

fun file_lines :: "string \<Rightarrow> string list" where
  "file_lines [] = [[]]"
| "file_lines (c # cs) =
     (if c = CHR 0x0A \<or> c = CHR 0x0D then [] # file_lines cs
      else (case file_lines cs of [] \<Rightarrow> [[c]] | l # ls \<Rightarrow> (c # l) # ls))"

subsection \<open>The world outside the program\<close>

datatype level = DEBUG | INFO | SUCCESS | WARNING | ERROR | CRITICAL

datatype message =
    LOG level string
  | PRINT string
  | TASK_COMPLETE string
  | TASK_FAILED string

text \<open>The exceptions that leave a function of the program.\<close>

datatype exn = OSError | UnboundLocalError

record world =
  files :: "string \<rightharpoonup> nat"
  undeletable :: "string set"
  uncreatable :: "string set"
  ledger :: "string option"
  ledger_read_fails :: bool
  ledger_write_fails :: bool
  out :: "message list"

definition emit :: "message \<Rightarrow> world \<Rightarrow> world" where
  "emit m w = w\<lparr>out := out w @ [m]\<rparr>"

text \<open>\<^verbatim>\<open>_log(message, level, log_queue)\<close> of \<^verbatim>\<open>editor.py\<close> and \<^verbatim>\<open>scraper.py\<close>.\<close>

definition log :: "string \<Rightarrow> level \<Rightarrow> world \<Rightarrow> world" where
  "log text lv w = emit (LOG lv text) w"

text \<open>\<^verbatim>\<open>os.path.exists(p)\<close>, and \<^verbatim>\<open>os.path.exists(p) and os.path.getsize(p) > 0\<close>.\<close>

definition exists :: "string \<Rightarrow> world \<Rightarrow> bool" where
  "exists p w = (files w p \<noteq> None)"

definition exists_nonempty :: "string \<Rightarrow> world \<Rightarrow> bool" where
  "exists_nonempty p w = (case files w p of None \<Rightarrow> False | Some n \<Rightarrow> 0 < n)"

text \<open>
  \<^verbatim>\<open>os.remove(p)\<close> on an existing file: \<open>None\<close> when it raises \<^verbatim>\<open>OSError\<close>.
\<close>

definition os_remove :: "string \<Rightarrow> world \<Rightarrow> world option" where
  "os_remove p w = (if p \<in> undeletable w then None else Some (w\<lparr>files := (files w)(p := None)\<rparr>))"

text \<open>
  The idiom
  \<^verbatim>\<open>if os.path.exists(p):
      try: os.remove(p)
      except OSError as e: _log(text, level, log_queue)\<close>
\<close>

definition remove_if_exists :: "string \<Rightarrow> string \<Rightarrow> level \<Rightarrow> world \<Rightarrow> world" where
  "remove_if_exists p text lv w =
     (if exists p w then (case os_remove p w of None \<Rightarrow> log text lv w | Some w' \<Rightarrow> w') else w)"

text \<open>\<^verbatim>\<open>os.makedirs(d, exist_ok=True)\<close> raises \<^verbatim>\<open>OSError\<close>.\<close>

definition makedirs_raises :: "string \<Rightarrow> world \<Rightarrow> bool" where
  "makedirs_raises d w = (d \<in> uncreatable w)"

subsection \<open>utils.py: the ledger of processed videos\<close>

text \<open>
  The ledger is the file \<^verbatim>\<open>data/processed_videos.txt\<close>, the default of the \<^verbatim>\<open>filepath\<close>
  parameter, which no call of the program overrides; its directory,
  \<^verbatim>\<open>os.path.dirname(filepath)\<close>, is \<^verbatim>\<open>data\<close>. \<open>ledger w = None\<close> when the file does not
  exist.
\<close>

definition PROCESSED_VIDEOS_DIR :: string where
  "PROCESSED_VIDEOS_DIR = ''data''"

text \<open>
  \<^verbatim>\<open>get_processed_videos()\<close>. When the file does not exist, line 19 calls \<^verbatim>\<open>os.makedirs\<close>
  before the \<^verbatim>\<open>try\<close> of line 21: its \<^verbatim>\<open>OSError\<close> leaves the function (\<open>Inl\<close>). An
  exception of \<^verbatim>\<open>open\<close> or of the reading is caught by the handler of line 24.
\<close>

definition get_processed_videos :: "world \<Rightarrow> (exn + string set) \<times> world" where
  "get_processed_videos w =
     (case ledger w of
        None \<Rightarrow> if makedirs_raises PROCESSED_VIDEOS_DIR w then (Inl OSError, w) else (Inr {}, w)
      | Some content \<Rightarrow>
          if ledger_read_fails w
          then (Inr {}, emit (PRINT ''Error loading processed videos: {e}'') w)
          else (Inr (set (filter (\<lambda>l. l \<noteq> []) (map strip (file_lines content)))), w))"

text \<open>
  \<^verbatim>\<open>add_processed_video(video_id)\<close>: here \<^verbatim>\<open>os.makedirs\<close>, \<^verbatim>\<open>open\<close> and \<^verbatim>\<open>write\<close> are all
  inside the \<^verbatim>\<open>try\<close>.
\<close>

definition add_processed_video :: "string \<Rightarrow> world \<Rightarrow> bool \<times> world" where
  "add_processed_video video_id w =
     (if makedirs_raises PROCESSED_VIDEOS_DIR w \<or> ledger_write_fails w
      then (False, emit (PRINT ''Error adding processed video: {e}'') w)
      else (True, w\<lparr>ledger := Some ((case ledger w of None \<Rightarrow> [] | Some content \<Rightarrow> content)
                                      @ video_id @ [CHR 0x0A])\<rparr>))"

text \<open>\<^verbatim>\<open>is_video_processed(video_id)\<close>, which handles no exception.\<close>

definition is_video_processed :: "string \<Rightarrow> world \<Rightarrow> (exn + bool) \<times> world" where
  "is_video_processed video_id w =
     (case get_processed_videos w of
        (Inl e, w') \<Rightarrow> (Inl e, w')
      | (Inr processed_videos, w') \<Rightarrow> (Inr (video_id \<in> processed_videos), w'))"

subsection \<open>Double-precision arithmetic\<close>

text \<open>
  \<^verbatim>\<open>editor.py\<close> computes the crop in floating point:
  \<^verbatim>\<open>int(original_width * (crop_percent / 100.0))\<close>. A finite double is a pair \<open>(m, e)\<close> that
  stands for \<open>m * 2 ^ e\<close>, with \<open>\<bar>m\<bar> < 2 ^ 53\<close>; every operation computes the exact
  result and rounds it to 53 significant bits, ties to even, as IEEE 754 prescribes.
  The values that occur here are integers and their products with a quotient between
  0.01 and 0.49, so no result is subnormal.
\<close>

type_synonym double = "int \<times> int"

fun bit_length :: "int \<Rightarrow> nat" where
  "bit_length n = (if n \<le> 0 then 0 else Suc (bit_length (n div 2)))"

declare bit_length.simps [simp del]

text \<open>\<open>n / 2 ^ k\<close> for \<open>0 \<le> n\<close>, rounded to the nearest integer, a tie to the even one.\<close>

definition round_half_even :: "int \<Rightarrow> nat \<Rightarrow> int" where
  "round_half_even n k =
     (if k = 0 then n
      else (let q = n div 2 ^ k; r = n mod 2 ^ k; h = 2 ^ (k - 1)
            in if r < h then q else if h < r then q + 1 else if even q then q else q + 1))"

definition round53 :: "int \<Rightarrow> int \<Rightarrow> double" where
  "round53 m e =
     (let k = bit_length (abs m) - 53
      in (sgn m * round_half_even (abs m) k, e + int k))"

text \<open>
  \<^verbatim>\<open>float(i)\<close>, as the mixed operations \<^verbatim>\<open>int / float\<close> and \<^verbatim>\<open>int * float\<close> convert their
  integer operand: \<open>None\<close> is \<^verbatim>\<open>OverflowError\<close>, raised when the rounded value reaches
  \<open>2 ^ 1024\<close>.
\<close>

definition float_of_int :: "int \<Rightarrow> double option" where
  "float_of_int i =
     (case round53 i 0 of (m, e) \<Rightarrow>
        if 1024 < int (bit_length (abs m)) + e then None else Some (m, e))"

text \<open>
  \<open>a / b\<close> for \<open>b \<noteq> 0\<close>: the quotient is cut after at least 55 bits and one more bit
  records whether anything was cut, which is enough to round correctly.
\<close>

definition fdiv :: "double \<Rightarrow> double \<Rightarrow> double" where
  "fdiv a b =
     (case (a, b) of ((ma, ea), (mb, eb)) \<Rightarrow>
        (let s = 55 + bit_length (abs mb) - bit_length (abs ma);
             n = abs ma * 2 ^ s;
             d = abs mb;
             sticky = (if n mod d = 0 then 0 else 1)
         in round53 (sgn ma * sgn mb * (2 * (n div d) + sticky)) (ea - eb - int s - 1)))"

definition fmul :: "double \<Rightarrow> double \<Rightarrow> double" where
  "fmul a b = (case (a, b) of ((ma, ea), (mb, eb)) \<Rightarrow> round53 (ma * mb) (ea + eb))"

text \<open>\<^verbatim>\<open>int(x)\<close> for a finite double: truncation towards zero.\<close>

definition int_of_float :: "double \<Rightarrow> int" where
  "int_of_float x =
     (case x of (m, e) \<Rightarrow>
        if 0 \<le> e then m * 2 ^ nat e else sgn m * (abs m div 2 ^ nat (- e)))"

text \<open>
  \<^verbatim>\<open>int(original * (crop_percent / 100.0))\<close> for integers \<open>original\<close> and \<open>crop_percent\<close>;
  \<open>None\<close> is \<^verbatim>\<open>OverflowError\<close>.
\<close>

definition crop_each_side :: "int \<Rightarrow> int \<Rightarrow> int option" where
  "crop_each_side original crop_percent =
     (case float_of_int crop_percent of
        None \<Rightarrow> None
      | Some p \<Rightarrow>
          (let fraction = fdiv p (100, 0)
           in case float_of_int original of
                None \<Rightarrow> None
              | Some x \<Rightarrow> Some (int_of_float (fmul x fraction))))"

subsection \<open>The external programs and the browser\<close>

text \<open>
  What \<^verbatim>\<open>subprocess.Popen(...)\<close> followed by \<^verbatim>\<open>communicate(timeout=...)\<close> can do:
  \<^verbatim>\<open>Popen\<close> raises \<^verbatim>\<open>FileNotFoundError\<close> (the program is not installed, nothing ran);
  \<^verbatim>\<open>communicate\<close> raises \<^verbatim>\<open>TimeoutExpired\<close>; any other exception, with the value of
  \<^verbatim>\<open>process.returncode\<close> at that moment (\<open>None\<close> when there is no process or it has not
  ended); or the process exits with a return code and a standard output. Each carries the
  files the process left.
\<close>

datatype run =
    FileNotFoundError
  | TimeoutExpired "string \<rightharpoonup> nat"
  | OtherException "int option" "string \<rightharpoonup> nat"
  | Exited int string "string \<rightharpoonup> nat"

text \<open>An anchor element: \<^verbatim>\<open>get_attribute('href')\<close> raises, or returns \<^verbatim>\<open>None\<close> or a string.\<close>

datatype element = GetAttributeRaises | Href "string option"

text \<open>
  One pass of the scroll loop: \<^verbatim>\<open>execute_script\<close> raises; \<^verbatim>\<open>find_elements\<close> raises; or the
  elements found.
\<close>

datatype scan = ScrollRaises | FindRaises | Elements "element list"

record env =
  ffmpeg_in_path :: bool
  yt_dlp :: "string \<Rightarrow> string \<Rightarrow> (string \<rightharpoonup> nat) \<Rightarrow> run"
  ffprobe_codec :: "string \<Rightarrow> (string \<rightharpoonup> nat) \<Rightarrow> run"
  ffprobe_size :: "string \<Rightarrow> (string \<rightharpoonup> nat) \<Rightarrow> run"
  ffmpeg :: "string \<Rightarrow> string list \<Rightarrow> string \<Rightarrow> (string \<rightharpoonup> nat) \<Rightarrow> run"
  python_int :: "string \<Rightarrow> int option"
  urlparse_path :: "string \<Rightarrow> string option"
  driver_setup :: bool
  driver_get :: "string \<Rightarrow> bool"
  feed_container_found :: bool
  scroll :: "nat \<Rightarrow> scan"
  driver_quit_raises :: bool
  stop_event_is_set :: "nat \<Rightarrow> bool"

text \<open>
  \<open>yt_dlp env filepath url fs\<close> is a run of yt-dlp writing to \<open>filepath\<close> on the files
  \<open>fs\<close>; \<open>ffprobe_codec\<close> and \<open>ffprobe_size\<close> are the two ffprobe queries on a file;
  \<open>ffmpeg env input filters output fs\<close> is the transcoding run. \<open>ffmpeg_in_path\<close> is
  \<^verbatim>\<open>shutil.which("ffmpeg") is not None\<close>. \<open>python_int\<close> is the builtin \<^verbatim>\<open>int\<close> on a string
  and \<open>urlparse_path u\<close> is \<^verbatim>\<open>urlparse(u).path\<close>, \<open>None\<close> when they raise.
  \<open>driver_setup\<close>: \<^verbatim>\<open>setup_driver\<close> returns a driver; \<open>driver_get u\<close>: navigating to \<open>u\<close>
  does not raise; \<open>feed_container_found\<close>: the wait for the feed container does not
  raise; \<open>scroll i\<close>: pass \<open>i\<close> of the scroll loop; \<open>stop_event_is_set i\<close>: the stop
  event is set when the worker reaches item \<open>i\<close>.
\<close>

subsection \<open>editor.py\<close>

definition EDITED_VIDEOS_DIR :: string where
  "EDITED_VIDEOS_DIR = ''edited_videos''"

text \<open>
  The \<^verbatim>\<open>edits\<close> dictionary: each of the two keys may be absent. A key that is present
  holds a Boolean (\<^verbatim>\<open>mirror\<close>) or an integer (\<^verbatim>\<open>crop_percent\<close>).
\<close>

record edits =
  mirror :: "bool option"
  crop_percent :: "int option"

definition default_edits :: edits where
  "default_edits = \<lparr>mirror = Some True, crop_percent = Some 2\<rparr>"

text \<open>
  Lines 77 to 104 of \<^verbatim>\<open>edit_video\<close>: the list \<^verbatim>\<open>video_filters\<close>. \<open>None\<close> is the
  \<^verbatim>\<open>OverflowError\<close> of the floating-point computation.
\<close>

definition video_filters ::
    "edits \<Rightarrow> string \<Rightarrow> int \<Rightarrow> int \<Rightarrow> world \<Rightarrow> string list option \<times> world" where
  "video_filters eds video_id original_width original_height w =
     (case (if mirror eds = Some True
            then ([''hflip''], log ''Applying horizontal flip (mirroring) with FFmpeg...'' DEBUG w)
            else ([], w)) of
        (flip, w1) \<Rightarrow>
          let percent = (case crop_percent eds of None \<Rightarrow> 0 | Some p \<Rightarrow> p)
          in if 0 < percent \<and> percent < 50 then
               (case crop_each_side original_width percent of
                  None \<Rightarrow> (None, w1)
                | Some crop_w_each_side \<Rightarrow>
                    (case crop_each_side original_height percent of
                       None \<Rightarrow> (None, w1)
                     | Some crop_h_each_side \<Rightarrow>
                         let out_w0 = original_width - 2 * crop_w_each_side;
                             out_h0 = original_height - 2 * crop_h_each_side;
                             offset_x = crop_w_each_side;
                             offset_y = crop_h_each_side;
                             out_w = (if out_w0 mod 2 = 0 then out_w0 else out_w0 - 1);
                             out_h = (if out_h0 mod 2 = 0 then out_h0 else out_h0 - 1)
                         in if out_w \<le> 0 \<or> out_h \<le> 0
                            then (Some flip,
                                  log (''Crop dimensions result in invalid output size for '' @ video_id
                                       @ ''. Skipping crop.'') WARNING w1)
                            else (let crop_filter = ''crop='' @ str out_w @ '':'' @ str out_h @ '':''
                                                    @ str offset_x @ '':'' @ str offset_y
                                  in (Some (flip @ [crop_filter]),
                                      log (''Applying crop with FFmpeg: '' @ crop_filter) DEBUG w1))))
             else (Some flip, w1))"

text \<open>\<^verbatim>\<open>original_width, original_height = map(int, stdout_probe.strip().split('x'))\<close>;
  \<open>None\<close> is \<^verbatim>\<open>ValueError\<close>.\<close>

definition parse_dimensions :: "env \<Rightarrow> string \<Rightarrow> (int \<times> int) option" where
  "parse_dimensions env stdout_probe =
     (case map (python_int env) (split (CHR ''x'') (strip stdout_probe)) of
        [Some original_width, Some original_height] \<Rightarrow> Some (original_width, original_height)
      | _ \<Rightarrow> None)"

text \<open>The handler \<^verbatim>\<open>except Exception as e\<close> of \<^verbatim>\<open>edit_video\<close>, lines 146 to 152.\<close>

definition edit_failed :: "string \<Rightarrow> string \<Rightarrow> world \<Rightarrow> (exn + string option) \<times> world" where
  "edit_failed input_video_path output_video_path w =
     (Inr None,
      remove_if_exists output_video_path
        (''Error removing file '' @ output_video_path @ '' on exception: {e_rem_ex}'') WARNING
        (log (''Unexpected error during FFmpeg video editing for '' @ input_video_path @ '': {e}'')
           ERROR w))"

text \<open>
  Lines 106 to 145 of \<^verbatim>\<open>edit_video\<close>: the ffmpeg run. On a timeout the process is killed
  and the output is removed by an \<^verbatim>\<open>os.remove\<close> that no handler guards: its \<^verbatim>\<open>OSError\<close>
  leaves \<^verbatim>\<open>edit_video\<close>.
\<close>

definition transcode ::
    "env \<Rightarrow> string \<Rightarrow> string \<Rightarrow> string \<Rightarrow> string list \<Rightarrow> world \<Rightarrow> (exn + string option) \<times> world" where
  "transcode env input_video_path video_id output_video_path filters w =
     (let w1 = log ''Executing FFmpeg command: {' '.join(ffmpeg_cmd)}'' DEBUG w
      in case ffmpeg env input_video_path filters output_video_path (files w1) of
           FileNotFoundError \<Rightarrow> edit_failed input_video_path output_video_path w1
         | OtherException rc fs \<Rightarrow> edit_failed input_video_path output_video_path (w1\<lparr>files := fs\<rparr>)
         | TimeoutExpired fs \<Rightarrow>
             (let w2 = log ''FFmpeg stderr (timeout): {stderr}'' ERROR
                        (log ''FFmpeg stdout (timeout): {stdout}'' DEBUG
                          (log (''FFmpeg command timed out for video '' @ video_id @ ''.'') ERROR
                            (w1\<lparr>files := fs\<rparr>)))
              in if exists output_video_path w2
                 then (case os_remove output_video_path w2 of
                         None \<Rightarrow> (Inl OSError, w2)
                       | Some w3 \<Rightarrow> (Inr None, w3))
                 else (Inr None, w2))
         | Exited returncode stdout fs \<Rightarrow>
             (let w2 = w1\<lparr>files := fs\<rparr>
              in if returncode = 0 \<and> exists_nonempty output_video_path w2
                 then (Inr (Some output_video_path),
                       log (''FFmpeg edited video saved successfully: '' @ output_video_path) SUCCESS w2)
                 else (Inr None,
                       remove_if_exists output_video_path
                         (''Error removing failed FFmpeg output '' @ output_video_path @ '': {e_rem}'')
                         WARNING
                         (log ''FFmpeg stderr: {stderr}'' ERROR
                           (log ''FFmpeg stdout: {stdout}'' DEBUG
                             (log (''FFmpeg editing failed for '' @ video_id
                                   @ ''. Return code: {process.returncode}'') ERROR w2))))))"

text \<open>
  \<^verbatim>\<open>edit_video(input_video_path, video_id, edits, log_queue)\<close>. \<open>Inr (Some p)\<close> is the
  path returned, \<open>Inr None\<close> is \<^verbatim>\<open>None\<close>, \<open>Inl e\<close> is an exception that leaves the function.
  When the first ffprobe run times out, the handler for \<^verbatim>\<open>TimeoutExpired\<close> reads
  the variable \<^verbatim>\<open>process\<close> before it is assigned.
\<close>

definition edit_video ::
    "env \<Rightarrow> string \<Rightarrow> string \<Rightarrow> edits option \<Rightarrow> world \<Rightarrow> (exn + string option) \<times> world" where
  "edit_video env input_video_path video_id edits_arg w =
     (if \<not> ffmpeg_in_path env
      then (Inr None,
            log ''Download FFmpeg from https://ffmpeg.org/download.html'' CRITICAL
              (log ''FFmpeg not found in PATH. Please install FFmpeg and add it to your system PATH.''
                 CRITICAL w))
      else if \<not> exists input_video_path w
      then (Inr None, log (''Input video not found at '' @ input_video_path) ERROR w)
      else
        (let output_video_path = path_join EDITED_VIDEOS_DIR (video_id @ ''_edited_ffmpeg.mp4'');
             eds = (case edits_arg of None \<Rightarrow> default_edits | Some d \<Rightarrow> d);
             w1 = log (''Starting FFmpeg editing for: '' @ input_video_path) INFO w
         in case ffprobe_size env input_video_path (files w1) of
              FileNotFoundError \<Rightarrow> edit_failed input_video_path output_video_path w1
            | OtherException rc fs \<Rightarrow> edit_failed input_video_path output_video_path (w1\<lparr>files := fs\<rparr>)
            | TimeoutExpired fs \<Rightarrow>
                (Inl UnboundLocalError,
                 log (''FFmpeg command timed out for video '' @ video_id @ ''.'') ERROR
                   (w1\<lparr>files := fs\<rparr>))
            | Exited returncode stdout_probe fs \<Rightarrow>
                (let w2 = w1\<lparr>files := fs\<rparr>
                 in if returncode \<noteq> 0
                    then (Inr None,
                          log (''ffprobe failed to get video dimensions for '' @ video_id
                               @ ''. Error: {stderr_probe}'') ERROR w2)
                    else (case parse_dimensions env stdout_probe of
                            None \<Rightarrow>
                              (Inr None,
                               log (''Could not parse dimensions from ffprobe output ''
                                    @ [CHR 0x27] @ strip stdout_probe @ [CHR 0x27] @ '': {e}'') ERROR w2)
                          | Some (original_width, original_height) \<Rightarrow>
                              (case video_filters eds video_id original_width original_height
                                      (log (''Original dimensions for '' @ video_id @ '': ''
                                            @ str original_width @ ''x'' @ str original_height)
                                         DEBUG w2) of
                                 (None, w3) \<Rightarrow> edit_failed input_video_path output_video_path w3
                               | (Some filters, w3) \<Rightarrow>
                                   transcode env input_video_path video_id output_video_path
                                     filters w3)))))"

subsection \<open>scraper.py\<close>

definition VIDEOS_DOWNLOAD_DIR :: string where
  "VIDEOS_DOWNLOAD_DIR = ''videos''"

text \<open>
  \<^verbatim>\<open>get_video_id_from_url(url, log_queue)\<close>: the last part of the path that consists of
  digits and is longer than 15 characters.
\<close>

definition get_video_id_from_url :: "env \<Rightarrow> string \<Rightarrow> world \<Rightarrow> string option \<times> world" where
  "get_video_id_from_url env url w =
     (case urlparse_path env url of
        None \<Rightarrow> (None, log (''Error extracting video ID from '' @ url @ '': {e}'') ERROR w)
      | Some url_path \<Rightarrow>
          (case filter (\<lambda>part. part \<noteq> [] \<and> list_all isdigit part \<and> 15 < length part)
                  (rev (split (CHR ''/'') url_path)) of
             [] \<Rightarrow> (None, w)
           | part # _ \<Rightarrow> (Some part, w)))"

text \<open>
  The loop \<^verbatim>\<open>for element in video_elements\<close> of \<^verbatim>\<open>get_video_links_from_tiktok\<close>, on
  the state \<^verbatim>\<open>(video_info_list, found_video_ids)\<close>; it stops at the \<^verbatim>\<open>break\<close>. The body
  is inside a \<^verbatim>\<open>try\<close>: an exception of \<^verbatim>\<open>get_attribute\<close> or of \<^verbatim>\<open>is_video_processed\<close> is
  logged and the loop goes on with the next element.
\<close>

fun scan_elements ::
    "env \<Rightarrow> int \<Rightarrow> element list \<Rightarrow> (string \<times> string) list \<times> string set \<times> world
      \<Rightarrow> (string \<times> string) list \<times> string set \<times> world" where
  "scan_elements env num_videos_to_find [] state = state"
| "scan_elements env num_videos_to_find (element # elements) (video_info_list, found_video_ids, w) =
     (case element of
        GetAttributeRaises \<Rightarrow>
          scan_elements env num_videos_to_find elements
            (video_info_list, found_video_ids, log ''Error processing a video element: {e}'' ERROR w)
      | Href None \<Rightarrow>
          scan_elements env num_videos_to_find elements (video_info_list, found_video_ids, w)
      | Href (Some video_url) \<Rightarrow>
          if video_url \<noteq> [] \<and> contains ''/video/'' video_url then
            (case get_video_id_from_url env video_url w of
               (None, w1) \<Rightarrow>
                 scan_elements env num_videos_to_find elements (video_info_list, found_video_ids, w1)
             | (Some video_id, w1) \<Rightarrow>
                 if video_id \<noteq> [] \<and> video_id \<notin> found_video_ids then
                   (case is_video_processed video_id w1 of
                      (Inl e, w2) \<Rightarrow>
                        scan_elements env num_videos_to_find elements
                          (video_info_list, found_video_ids,
                           log ''Error processing a video element: {e}'' ERROR w2)
                    | (Inr False, w2) \<Rightarrow>
                        (let w3 = log (''Found new video: ID - '' @ video_id @ '', URL - '' @ video_url)
                                    INFO w2;
                             video_info_list' = video_info_list @ [(video_id, video_url)];
                             found_video_ids' = insert video_id found_video_ids
                         in if num_videos_to_find \<le> int (length video_info_list')
                            then (video_info_list', found_video_ids', w3)
                            else scan_elements env num_videos_to_find elements
                                   (video_info_list', found_video_ids', w3))
                    | (Inr True, w2) \<Rightarrow>
                        scan_elements env num_videos_to_find elements
                          (video_info_list, found_video_ids,
                           log (''Skipping already processed video ID (from file): '' @ video_id)
                             DEBUG w2))
                 else scan_elements env num_videos_to_find elements
                        (video_info_list, found_video_ids, w1))
          else scan_elements env num_videos_to_find elements (video_info_list, found_video_ids, w))"

text \<open>
  The loop \<^verbatim>\<open>for i in range(scroll_pauses)\<close>: \<open>scroll_loop env hashtag n i k state\<close> runs
  the passes \<open>i\<close>, ..., \<open>i + k - 1\<close>.
\<close>

fun scroll_loop ::
    "env \<Rightarrow> string \<Rightarrow> int \<Rightarrow> nat \<Rightarrow> nat \<Rightarrow> (string \<times> string) list \<times> string set \<times> world
      \<Rightarrow> (string \<times> string) list \<times> string set \<times> world" where
  "scroll_loop env hashtag num_videos_to_find i 0 state = state"
| "scroll_loop env hashtag num_videos_to_find i (Suc k) (video_info_list, found_video_ids, w) =
     (let w1 = log (''Scroll attempt {i+1}/{scroll_pauses} for hashtag '' @ [CHR 0x27] @ hashtag
                    @ [CHR 0x27] @ ''. Scrolling down...'') DEBUG w
      in case scroll env i of
           ScrollRaises \<Rightarrow>
             (video_info_list, found_video_ids,
              log ''Error during scrolling or sleep: {e_scroll}'' WARNING w1)
         | found \<Rightarrow>
             (let w2 = log ''Waiting {scroll_time} seconds for videos to load...'' DEBUG w1;
                  w3 = (case found of
                          FindRaises \<Rightarrow> log ''Error finding video elements with XPath: {e_find}'' ERROR w2
                        | _ \<Rightarrow> w2);
                  video_elements = (case found of Elements es \<Rightarrow> es | _ \<Rightarrow> []);
                  w4 = log ''Found {len(video_elements)} potential video link elements after scroll {i+1}.''
                         DEBUG w3
              in case scan_elements env num_videos_to_find video_elements
                        (video_info_list, found_video_ids, w4) of
                   (video_info_list', found_video_ids', w5) \<Rightarrow>
                     if num_videos_to_find \<le> int (length video_info_list')
                     then (video_info_list', found_video_ids',
                           log (''Target number of {num_videos_to_find} new videos found for hashtag ''
                                @ [CHR 0x27] @ hashtag @ [CHR 0x27] @ ''.'') INFO w5)
                     else scroll_loop env hashtag num_videos_to_find (Suc i) k
                            (video_info_list', found_video_ids',
                             log (''Collected {len(video_info_list)} new videos so far for hashtag ''
                                  @ [CHR 0x27] @ hashtag @ [CHR 0x27] @ ''...'') DEBUG w5)))"

text \<open>\<^verbatim>\<open>xs[:n]\<close> for an integer \<open>n\<close>: a negative \<open>n\<close> counts from the end.\<close>

definition slice_to :: "int \<Rightarrow> 'a list \<Rightarrow> 'a list" where
  "slice_to n xs = (if 0 \<le> n then take (nat n) xs else take (nat (int (length xs) + n)) xs)"

text \<open>
  \<^verbatim>\<open>get_video_links_from_tiktok(driver, hashtag, num_videos_to_find, scroll_pauses,
  scroll_time, log_queue)\<close>; \<open>driver\<close> says whether the driver is not \<^verbatim>\<open>None\<close>.
\<close>

definition get_video_links_from_tiktok ::
    "env \<Rightarrow> bool \<Rightarrow> string \<Rightarrow> int \<Rightarrow> int \<Rightarrow> world \<Rightarrow> (string \<times> string) list \<times> world" where
  "get_video_links_from_tiktok env driver hashtag num_videos_to_find scroll_pauses w =
     (if \<not> driver
      then ([], log ''WebDriver not available for get_video_links_from_tiktok.'' ERROR w)
      else if hashtag = []
      then ([], log ''Hashtag not provided to get_video_links_from_tiktok.'' ERROR w)
      else
        (let target_url = ''https://www.tiktok.com/tag/'' @ strip hashtag;
             w1 = log (''Navigating to hashtag page: '' @ target_url @ ''...'') INFO w
         in if \<not> driver_get env target_url
            then ([], log (''Error navigating to '' @ target_url @ '': {e}'') ERROR w1)
            else
              (let w2 = log ''Please wait for page to load. Manually handle CAPTCHAs/pop-ups if they appear.''
                          INFO w1
               in if \<not> feed_container_found env
                  then ([], log (''Timeout or error finding main video feed container on tag page ''
                                 @ [CHR 0x27] @ hashtag @ [CHR 0x27]
                                 @ ''. Structure may have changed: {e}'') ERROR w2)
                  else
                    (case scroll_loop env hashtag num_videos_to_find 0 (nat scroll_pauses)
                            ([], {}, log ''Main video feed/list container detected on tag page.'' INFO w2) of
                       (video_info_list, found_video_ids, w3) \<Rightarrow>
                         (slice_to num_videos_to_find video_info_list,
                          if video_info_list = []
                          then log ''  4. All videos found were already processed or hashtag has no videos.'' WARNING
                                (log ''  3. CAPTCHA or login required (manual intervention needed).'' WARNING
                                  (log ''  2. No new videos on the page that haven't been processed.'' WARNING
                                    (log ''  1. TikTok page structure changed (CSS/XPath needs update).'' WARNING
                                      (log (''No new video links found for hashtag '' @ [CHR 0x27] @ hashtag
                                            @ [CHR 0x27] @ ''. Possible reasons:'') WARNING w3))))
                          else w3)))))"

text \<open>
  The ffprobe check inside \<^verbatim>\<open>download_video\<close>, lines 213 to 249, after yt-dlp has
  exited with code 0 and left a file that is not empty.
\<close>

definition verify_download :: "env \<Rightarrow> string \<Rightarrow> string \<Rightarrow> world \<Rightarrow> string option \<times> world" where
  "verify_download env video_id filepath w =
     (let w1 = log (''Video '' @ video_id @ '' downloaded by yt-dlp. Verifying integrity with ffprobe...'')
                 DEBUG w
      in case ffprobe_codec env filepath (files w1) of
           Exited returncode ff_stdout fs \<Rightarrow>
             (let w2 = w1\<lparr>files := fs\<rparr>
              in if returncode = 0 \<and> strip ff_stdout \<noteq> []
                 then (Some filepath,
                       log (''Video '' @ video_id @ '' integrity verified by ffprobe. Codec: ''
                            @ strip ff_stdout) SUCCESS w2)
                 else (None,
                       remove_if_exists filepath
                         (''Error removing corrupted download file '' @ filepath @ '': {e_rem}'') ERROR
                         (log ''ffprobe stderr: {ff_stderr.strip()}'' ERROR
                           (log (''ffprobe stdout: '' @ strip ff_stdout) DEBUG
                             (log ''ffprobe RC: {verify_process.returncode}'' ERROR
                               (log (''ffprobe verification failed for '' @ filepath
                                     @ ''. Video might be corrupt.'') ERROR w2))))))
         | TimeoutExpired fs \<Rightarrow>
             (None,
              remove_if_exists filepath
                (''Error removing timed-out verification file '' @ filepath @ '': {e_rem}'') ERROR
                (log (''ffprobe timed out verifying '' @ filepath @ ''. Assuming corrupt.'') ERROR
                   (w1\<lparr>files := fs\<rparr>)))
         | FileNotFoundError \<Rightarrow>
             (Some filepath,
              log ''Please ensure FFmpeg is installed and in PATH. The downloaded file will be kept but may be corrupt.''
                WARNING
                (log ''CRITICAL: ffprobe (part of FFmpeg) not found in PATH. Cannot verify video integrity.''
                   CRITICAL w1))
         | OtherException rc fs \<Rightarrow>
             (None,
              remove_if_exists filepath
                (''Error removing file after ffprobe error '' @ filepath @ '': {e_rem}'') ERROR
                (log (''Error during ffprobe verification for '' @ filepath @ '': {e_ffprobe}'') ERROR
                   (w1\<lparr>files := fs\<rparr>))))"

text \<open>
  \<^verbatim>\<open>download_video(video_id, video_url, download_folder, log_queue)\<close>, with the default
  folder. \<open>Inr (Some p)\<close> is the path returned, \<open>Inr None\<close> is \<^verbatim>\<open>None\<close>. The ledger check of
  line 189 and the \<^verbatim>\<open>os.makedirs\<close> of line 194 stand before the \<^verbatim>\<open>try\<close>: their exception
  leaves the function (\<open>Inl\<close>). In the last handler the file is kept when it is not empty
  and the return code is 0.
\<close>

definition download_video ::
    "env \<Rightarrow> string \<Rightarrow> string \<Rightarrow> world \<Rightarrow> (exn + string option) \<times> world" where
  "download_video env video_id video_url w =
     (case is_video_processed video_id w of
        (Inl e, w0) \<Rightarrow> (Inl e, w0)
      | (Inr True, w0) \<Rightarrow>
          (Inr None,
           log (''Video '' @ video_id @ '' already processed (checked again). Skipping download.'')
             INFO w0)
      | (Inr False, w0) \<Rightarrow>
          if makedirs_raises VIDEOS_DOWNLOAD_DIR w0 then (Inl OSError, w0)
          else
          (let filepath = path_join VIDEOS_DOWNLOAD_DIR (video_id @ ''.mp4'');
               w1 = log (''Attempting to download video: '' @ video_id @ '' from '' @ video_url
                         @ '' using yt-dlp...'') INFO w0
           in case yt_dlp env filepath video_url (files w1) of
                Exited returncode stdout fs \<Rightarrow>
                  (let w2 = w1\<lparr>files := fs\<rparr>
                   in if returncode = 0 \<and> exists_nonempty filepath w2
                      then (case verify_download env video_id filepath w2 of
                              (downloaded, w3) \<Rightarrow> (Inr downloaded, w3))
                      else
                        (let w3 = log ''yt-dlp stderr: {stderr.strip()}'' ERROR
                                   (log (''yt-dlp stdout: '' @ strip stdout) DEBUG
                                     (log (''File path: '' @ filepath
                                           @ '', Exists: {os.path.exists(filepath)}, Size: {os.path.getsize(filepath) if os.path.exists(filepath) else 'N/A'}'')
                                        DEBUG
                                       (log (''Failed to download video '' @ video_id
                                             @ ''. yt-dlp RC: {process.returncode}'') ERROR w2)))
                         in (Inr None,
                             if \<not> exists_nonempty filepath w3 \<or> returncode \<noteq> 0
                             then remove_if_exists filepath
                                    (''Error removing problematic download file '' @ filepath @ '': {e_rem}'')
                                    ERROR w3
                             else w3)))
              | TimeoutExpired fs \<Rightarrow>
                  (Inr None,
                   remove_if_exists filepath
                     (''Error removing timed-out download file '' @ filepath @ '': {e_rem_tout}'') ERROR
                     (log ''yt-dlp process killed due to timeout.'' DEBUG
                       (log (''yt-dlp timed out downloading video '' @ video_id @ ''.'') ERROR
                          (w1\<lparr>files := fs\<rparr>))))
              | FileNotFoundError \<Rightarrow>
                  (Inr None,
                   log ''Install with: pip install yt-dlp'' CRITICAL
                     (log ''CRITICAL: yt-dlp command not found. Ensure yt-dlp is installed and in PATH.''
                        CRITICAL w1))
              | OtherException rc fs \<Rightarrow>
                  (let w2 = log (''An unexpected error occurred downloading video '' @ video_id
                                 @ '': {e}'') ERROR (w1\<lparr>files := fs\<rparr>)
                   in (Inr None,
                       if exists_nonempty filepath w2 \<and> rc = Some 0 then w2
                       else remove_if_exists filepath
                              (''Error removing file '' @ filepath @ '' on exception: {e_rem_ex}'')
                              ERROR w2))))"

text \<open>
  \<^verbatim>\<open>verify_downloaded_video(filepath, video_id, log_queue)\<close>, which no function of the
  program calls. The first removal ignores an \<^verbatim>\<open>OSError\<close> without a message.
\<close>

definition verify_downloaded_video :: "env \<Rightarrow> string \<Rightarrow> string \<Rightarrow> world \<Rightarrow> bool \<times> world" where
  "verify_downloaded_video env filepath video_id w =
     (if \<not> exists_nonempty filepath w
      then (let w1 = log (''File '' @ filepath @ '' for video '' @ video_id
                          @ '' is missing or empty before ffprobe check.'') ERROR w
            in (False,
                if exists filepath w1
                then (case os_remove filepath w1 of None \<Rightarrow> w1 | Some w2 \<Rightarrow> w2)
                else w1))
      else
        (let w1 = log (''Verifying integrity of '' @ filepath @ '' for video '' @ video_id
                       @ '' with ffprobe...'') DEBUG w
         in case ffprobe_codec env filepath (files w1) of
              Exited returncode ff_stdout fs \<Rightarrow>
                (let w2 = w1\<lparr>files := fs\<rparr>
                 in if returncode = 0 \<and> strip ff_stdout \<noteq> []
                    then (True,
                          log (''Video '' @ video_id @ '' integrity verified by ffprobe. Codec: ''
                               @ strip ff_stdout) SUCCESS w2)
                    else (False,
                          remove_if_exists filepath
                            (''Error removing corrupted download file '' @ filepath @ '': {e_rem}'') ERROR
                            (log (''ffprobe RC: {verify_process.returncode}, STDOUT: '' @ [CHR 0x27]
                                  @ strip ff_stdout @ [CHR 0x27]
                                  @ '', STDERR: '' @ [CHR 0x27] @ ''{ff_stderr.strip()}'' @ [CHR 0x27])
                               DEBUG
                              (log (''ffprobe verification failed for '' @ filepath @ '' (ID: ''
                                    @ video_id @ ''). Video might be corrupt.'') ERROR w2))))
            | TimeoutExpired fs \<Rightarrow>
                (False,
                 remove_if_exists filepath
                   (''Error removing file after ffprobe timeout '' @ filepath @ '': {e_rem}'') ERROR
                   (log (''ffprobe timed out verifying '' @ filepath @ '' (ID: '' @ video_id
                         @ ''). Assuming corrupt.'') ERROR (w1\<lparr>files := fs\<rparr>)))
            | FileNotFoundError \<Rightarrow>
                (True,
                 log ''Please ensure FFmpeg is installed and in PATH. Downloaded files will be kept but may be corrupt.''
                   WARNING
                   (log ''CRITICAL: ffprobe (part of FFmpeg) not found in PATH. Cannot verify video integrity.''
                      CRITICAL w1))
            | OtherException rc fs \<Rightarrow>
                (False,
                 remove_if_exists filepath
                   (''Error removing file after ffprobe error '' @ filepath @ '': {e_rem}'') ERROR
                   (log (''Error during ffprobe verification for '' @ filepath @ '' (ID: '' @ video_id
                         @ ''): {e_ffprobe}'') ERROR (w1\<lparr>files := fs\<rparr>)))))"

text \<open>\<^verbatim>\<open>setup_driver(log_queue)\<close>: whether a driver is returned.\<close>

definition setup_driver :: "env \<Rightarrow> world \<Rightarrow> bool \<times> world" where
  "setup_driver env w =
     (let w1 = log ''Setting up Chrome WebDriver...'' DEBUG w
      in if driver_setup env
         then (True, log ''WebDriver setup successful.'' DEBUG w1)
         else (False,
               log ''You might also need to check your internet connection for WebDriverManager.'' ERROR
                 (log ''Please ensure Google Chrome is installed and accessible.'' ERROR
                   (log ''Error setting up WebDriver: {e}'' ERROR w1))))"

text \<open>
  The loop \<^verbatim>\<open>for i, (video_id, video_url) in enumerate(video_links_info)\<close> of
  \<^verbatim>\<open>scrape_and_download_videos_by_hashtag\<close>. The result is \<^verbatim>\<open>processed_video_details\<close>, a
  pair \<open>(id, filepath)\<close> for each dictionary, and the exception that ended the loop, if
  one did.
\<close>

fun download_all ::
    "env \<Rightarrow> (string \<times> string) list \<Rightarrow> world \<Rightarrow> (string \<times> string) list \<times> exn option \<times> world" where
  "download_all env [] w = ([], None, w)"
| "download_all env ((video_id, video_url) # video_links_info) w =
     (case download_video env video_id video_url w of
        (Inl e, w1) \<Rightarrow> ([], Some e, w1)
      | (Inr downloaded_filepath, w1) \<Rightarrow>
          (case downloaded_filepath of
             None \<Rightarrow>
               download_all env video_links_info
                 (log (''Failed to download video '' @ video_id
                       @ ''. It may have been skipped or an error occurred.'') ERROR w1)
           | Some filepath \<Rightarrow>
               if filepath = []
               then download_all env video_links_info
                      (log (''Failed to download video '' @ video_id
                            @ ''. It may have been skipped or an error occurred.'') ERROR w1)
               else (case download_all env video_links_info
                            (log (''Successfully downloaded video '' @ video_id @ '' to '' @ filepath)
                               SUCCESS w1) of
                       (processed_video_details, raised, w2) \<Rightarrow>
                         ((video_id, filepath) # processed_video_details, raised, w2))))"

text \<open>The \<^verbatim>\<open>finally\<close> clause of \<^verbatim>\<open>scrape_and_download_videos_by_hashtag\<close>, for a driver.\<close>

definition quit_driver :: "env \<Rightarrow> world \<Rightarrow> world" where
  "quit_driver env w =
     (let w1 = log ''Closing WebDriver.'' DEBUG w
      in if driver_quit_raises env then log ''Error while quitting WebDriver: {e_quit}'' WARNING w1
         else w1)"

text \<open>
  \<^verbatim>\<open>scrape_and_download_videos_by_hashtag(hashtag, num_videos_to_find, log_queue)\<close>, which
  calls \<^verbatim>\<open>get_video_links_from_tiktok\<close> with its default of 5 scroll passes. An exception
  of \<^verbatim>\<open>download_video\<close> is caught by the handler of line 415, which returns the
  downloads made so far.
\<close>

definition scrape_and_download_videos_by_hashtag ::
    "env \<Rightarrow> string \<Rightarrow> int \<Rightarrow> world \<Rightarrow> (string \<times> string) list \<times> world" where
  "scrape_and_download_videos_by_hashtag env hashtag num_videos_to_find w =
     (case setup_driver env (log (''Initializing scraping process for hashtag: #'' @ hashtag) INFO w) of
        (False, w1) \<Rightarrow> ([], log ''Failed to setup WebDriver. Aborting scrape.'' CRITICAL w1)
      | (True, w1) \<Rightarrow>
          (case get_video_links_from_tiktok env True hashtag num_videos_to_find 5 w1 of
             (video_links_info, w2) \<Rightarrow>
               if video_links_info = []
               then ([], quit_driver env
                           (log (''No new video links found for hashtag '' @ [CHR 0x27] @ hashtag
                                 @ [CHR 0x27] @ ''.'') WARNING w2))
               else (case download_all env video_links_info
                            (log ''Found {total_to_download} new video(s). Starting download process...''
                               INFO w2) of
                       (processed_video_details, None, w3) \<Rightarrow>
                         (processed_video_details, quit_driver env w3)
                     | (processed_video_details, Some e, w3) \<Rightarrow>
                         (processed_video_details,
                          quit_driver env
                            (log ''{traceback.format_exc()}'' DEBUG
                              (log ''An unexpected error occurred during the main scraping/downloading process: {e}''
                                 CRITICAL w3))))))"

subsection \<open>main.py: the worker\<close>

text \<open>
  The loop \<^verbatim>\<open>for i, video_info in enumerate(downloaded_video_infos)\<close> of
  \<^verbatim>\<open>App.scraping_worker\<close>, lines 207 to 237, on the counters
  \<^verbatim>\<open>(edited_count, failed_edits)\<close>. \<open>Inl e\<close>: \<^verbatim>\<open>edit_video\<close> raised \<open>e\<close>, which ends the loop.
\<close>

fun edit_all ::
    "env \<Rightarrow> nat \<Rightarrow> (string \<times> string) list \<Rightarrow> nat \<times> nat \<Rightarrow> world \<Rightarrow> (exn + nat \<times> nat) \<times> world" where
  "edit_all env i [] counts w = (Inr counts, w)"
| "edit_all env i ((video_id, original_filepath) # video_infos) (edited_count, failed_edits) w =
     (if stop_event_is_set env i
      then (Inr (edited_count, failed_edits),
            log ''Stop requested by user. Halting process.'' WARNING w)
      else if video_id = [] \<or> original_filepath = []
      then edit_all env (Suc i) video_infos (edited_count, failed_edits + 1)
             (log ''Skipping an item due to missing ID or filepath: {video_info}'' WARNING w)
      else
        (case edit_video env original_filepath video_id None
                (log (''--- Processing video '' @ video_id @ '' ({i+1}/{total_videos_to_process}) ---'')
                   INFO w) of
           (Inl e, w1) \<Rightarrow> (Inl e, w1)
         | (Inr None, w1) \<Rightarrow>
             edit_all env (Suc i) video_infos (edited_count, failed_edits + 1)
               (log (''Failed to edit video '' @ video_id
                     @ ''. It might have been skipped or an error occurred.'') ERROR w1)
         | (Inr (Some edited_video_path), w1) \<Rightarrow>
             if edited_video_path = []
             then edit_all env (Suc i) video_infos (edited_count, failed_edits + 1)
                    (log (''Failed to edit video '' @ video_id
                          @ ''. It might have been skipped or an error occurred.'') ERROR w1)
             else (case add_processed_video video_id
                          (log (''Video '' @ video_id @ '' edited successfully: '' @ edited_video_path)
                             SUCCESS w1) of
                     (added, w2) \<Rightarrow>
                       edit_all env (Suc i) video_infos (edited_count + 1, failed_edits) w2)))"

text \<open>\<^verbatim>\<open>App.scraping_worker(hashtag, num_videos_to_find)\<close>\<close>

definition scraping_worker :: "env \<Rightarrow> string \<Rightarrow> int \<Rightarrow> world \<Rightarrow> world" where
  "scraping_worker env hashtag num_videos_to_find w =
     log ''Scraping and editing worker thread finished.'' DEBUG
       (case scrape_and_download_videos_by_hashtag env hashtag num_videos_to_find
               (log ''Initializing TikTok scraping process...'' INFO w) of
          (downloaded_video_infos, w1) \<Rightarrow>
            if downloaded_video_infos = []
            then emit (TASK_COMPLETE (''No new videos processed for #'' @ hashtag @ ''.''))
                   (log (''No new, valid videos found or downloaded for hashtag '' @ [CHR 0x27] @ hashtag
                         @ [CHR 0x27] @ ''.'') WARNING w1)
            else
              (case edit_all env 0 downloaded_video_infos (0, 0)
                      (log (''Found '' @ str (int (length downloaded_video_infos))
                            @ '' new, valid video(s) to process.'') INFO w1) of
                 (Inr (edited_count, failed_edits), w2) \<Rightarrow>
                   emit (TASK_COMPLETE
                          (''Process finished for hashtag '' @ [CHR 0x27] @ hashtag @ [CHR 0x27]
                           @ ''. Successfully edited: '' @ str (int edited_count) @ ''/''
                           @ str (int (length downloaded_video_infos)) @ ''. Failed/Skipped: ''
                           @ str (int failed_edits) @ ''.''
                           @ (if 0 < failed_edits then '' Check logs for details on failures.'' else [])))
                     w2
               | (Inl e, w2) \<Rightarrow>
                   emit (TASK_FAILED ''Critical error in backend process. Check logs.'')
                     (log ''{traceback.format_exc()}'' DEBUG
                       (log ''Scraping worker encountered an unhandled error: {e}'' CRITICAL w2))))"

subsection \<open>Auxiliary notions\<close>

text \<open>
  The ledger file, its two failure switches and the directories that cannot be created
  are the same in \<open>w\<close> and \<open>w'\<close>.
\<close>

definition same_ledger :: "world \<Rightarrow> world \<Rightarrow> bool" where
  "same_ledger w w' \<longleftrightarrow>
     ledger w' = ledger w \<and> ledger_read_fails w' = ledger_read_fails w
     \<and> ledger_write_fails w' = ledger_write_fails w \<and> uncreatable w' = uncreatable w"

subsection \<open>Concrete worlds and environments\<close>

text \<open>A world with no file and no ledger, in which nothing fails.\<close>

definition world0 :: world where
  "world0 = \<lparr>files = Map.empty, undeletable = {}, uncreatable = {}, ledger = None,
             ledger_read_fails = False, ledger_write_fails = False, out = []\<rparr>"

text \<open>Three videos of a tag page; the second is in the ledger of \<open>world1\<close>.\<close>

definition id1 :: string where "id1 = ''7300000000000000001''"
definition id3 :: string where "id3 = ''7300000000000000003''"

definition url1 :: string where "url1 = ''https://www.tiktok.com/@a/video/7300000000000000001''"
definition url2 :: string where "url2 = ''https://www.tiktok.com/@b/video/7300000000000000002''"
definition url3 :: string where "url3 = ''https://www.tiktok.com/@c/video/7300000000000000003''"


text \<open>
  An environment in which every program is installed and succeeds: yt-dlp writes
  1000 bytes, ffprobe reports the codec \<^verbatim>\<open>h264\<close> and the size 720 by 1280, ffmpeg writes 900
  bytes, and the first scroll pass shows the three videos, the first of them twice.
\<close>

definition env0 :: env where
  "env0 = \<lparr>ffmpeg_in_path = True,
            yt_dlp = (\<lambda>filepath url fs. Exited 0 [] (fs(filepath \<mapsto> 1000))),
            ffprobe_codec = (\<lambda>filepath fs. Exited 0 (''h264'' @ [CHR 0x0A]) fs),
            ffprobe_size = (\<lambda>filepath fs. Exited 0 (''720x1280'' @ [CHR 0x0A]) fs),
            ffmpeg = (\<lambda>input filters output fs. Exited 0 [] (fs(output \<mapsto> 900))),
            python_int = (\<lambda>s. if s = ''720'' then Some 720 else if s = ''1280'' then Some 1280 else None),
            urlparse_path = (\<lambda>url. Some (drop 22 url)),
            driver_setup = True,
            driver_get = (\<lambda>url. True),
            feed_container_found = True,
            scroll = (\<lambda>i. if i = 0
                           then Elements [Href (Some url1), Href (Some url2), Href (Some url1),
                                          Href None, Href (Some url3)]
                           else Elements []),
            driver_quit_raises = False,
            stop_event_is_set = (\<lambda>i. False)\<rparr>"

text \<open>The same, without yt-dlp; without ffprobe; and with an ffmpeg that writes 10 bytes
  and then exceeds its time.\<close>

definition env_no_yt_dlp :: env where
  "env_no_yt_dlp = env0\<lparr>yt_dlp := (\<lambda>filepath url fs. FileNotFoundError)\<rparr>"

definition env_no_ffprobe :: env where
  "env_no_ffprobe = env0\<lparr>ffprobe_codec := (\<lambda>filepath fs. FileNotFoundError)\<rparr>"

definition env_slow_ffmpeg :: env where
  "env_slow_ffmpeg = env0\<lparr>ffmpeg := (\<lambda>input filters output fs. TimeoutExpired (fs(output \<mapsto> 10)))\<rparr>"



section \<open>Properties\<close>

subsection \<open>Messages change nothing but the list of messages\<close>

lemma emit_fields [simp]:
  "files (emit m w) = files w" "undeletable (emit m w) = undeletable w"
  "uncreatable (emit m w) = uncreatable w"
  "ledger (emit m w) = ledger w" "ledger_read_fails (emit m w) = ledger_read_fails w"
  "ledger_write_fails (emit m w) = ledger_write_fails w" "out (emit m w) = out w @ [m]"
  by (simp_all add: emit_def)

lemma log_fields [simp]:
  "files (log t lv w) = files w" "undeletable (log t lv w) = undeletable w"
  "uncreatable (log t lv w) = uncreatable w"
  "ledger (log t lv w) = ledger w" "ledger_read_fails (log t lv w) = ledger_read_fails w"
  "ledger_write_fails (log t lv w) = ledger_write_fails w" "out (log t lv w) = out w @ [LOG lv t]"
  by (simp_all add: log_def)

subsection \<open>What leaves the ledger alone\<close>

lemma same_ledger_refl [simp]: "same_ledger w w"
  by (simp add: same_ledger_def)

lemma same_ledger_emit [simp]: "same_ledger w (emit m w') = same_ledger w w'"
  by (simp add: same_ledger_def)

lemma same_ledger_log [simp]: "same_ledger w (log t lv w') = same_ledger w w'"
  by (simp add: same_ledger_def)

lemma same_ledger_files [simp]: "same_ledger w (w'\<lparr>files := fs\<rparr>) = same_ledger w w'"
  by (simp add: same_ledger_def)

lemma same_ledger_out [simp]: "same_ledger w (w'\<lparr>out := ms\<rparr>) = same_ledger w w'"
  by (simp add: same_ledger_def)

lemma same_ledger_remove_if_exists [simp]:
  "same_ledger w (remove_if_exists p t lv w') = same_ledger w w'"
  by (simp add: remove_if_exists_def os_remove_def)

lemma same_ledger_os_remove: "os_remove p w' = Some w'' \<Longrightarrow> same_ledger w w'' = same_ledger w w'"
  by (auto simp: os_remove_def split: if_splits)

lemma same_ledger_trans: "same_ledger w w' \<Longrightarrow> same_ledger w' w'' \<Longrightarrow> same_ledger w w''"
  by (simp add: same_ledger_def)

lemma same_ledger_get_processed_videos [simp]:
  "same_ledger w (snd (get_processed_videos w')) = same_ledger w w'"
  by (simp add: get_processed_videos_def split: option.splits)

lemma files_get_processed_videos [simp]:
  "files (snd (get_processed_videos w)) = files w"
  by (simp add: get_processed_videos_def split: option.splits)

lemma undeletable_get_processed_videos [simp]:
  "undeletable (snd (get_processed_videos w)) = undeletable w"
  by (simp add: get_processed_videos_def split: option.splits)

lemma uncreatable_get_processed_videos [simp]:
  "uncreatable (snd (get_processed_videos w)) = uncreatable w"
  by (simp add: get_processed_videos_def split: option.splits)

lemma get_processed_videos_cong:
  "same_ledger w w' \<Longrightarrow> fst (get_processed_videos w') = fst (get_processed_videos w)"
  by (simp add: get_processed_videos_def same_ledger_def makedirs_raises_def split: option.splits)

lemma is_video_processed_eq:
  "is_video_processed v w =
     (case fst (get_processed_videos w) of Inl e \<Rightarrow> Inl e | Inr ids \<Rightarrow> Inr (v \<in> ids),
      snd (get_processed_videos w))"
  by (simp add: is_video_processed_def case_prod_beta split: sum.splits)

lemma snd_is_video_processed: "snd (is_video_processed v w) = snd (get_processed_videos w)"
  by (simp add: is_video_processed_eq)

lemma same_ledger_verify_download [simp]:
  "same_ledger w (snd (verify_download env v p w')) = same_ledger w w'"
  by (simp add: verify_download_def Let_def split: run.splits)

lemma same_ledger_download_video [simp]:
  "same_ledger w (snd (download_video env v u w')) = same_ledger w w'"
  by (simp add: download_video_def is_video_processed_eq Let_def case_prod_beta
      split: run.splits sum.splits bool.splits)

lemma same_ledger_download_all [simp]:
  "same_ledger w (snd (snd (download_all env links w'))) = same_ledger w w'"
proof (induction links arbitrary: w')
  case Nil
  show ?case by simp
next
  case (Cons link links)
  obtain v u where link: "link = (v, u)" by (cases link)
  obtain r w1 where d: "download_video env v u w' = (r, w1)" by (cases "download_video env v u w'")
  have w1: "same_ledger w w1 = same_ledger w w'"
    using same_ledger_download_video [of w env v u w'] d by simp
  show ?case
    using Cons.IH w1 by (simp add: link d case_prod_beta split: option.splits sum.splits)
qed

lemma same_ledger_get_video_id_from_url [simp]:
  "same_ledger w (snd (get_video_id_from_url env u w')) = same_ledger w w'"
  by (simp add: get_video_id_from_url_def split: option.splits list.splits)

lemma same_ledger_scan_elements [simp]:
  "same_ledger w (snd (snd (scan_elements env n es (l, f, w')))) = same_ledger w w'"
proof (induction es arbitrary: l f w')
  case Nil
  show ?case by simp
next
  case (Cons e es)
  show ?case
  proof (cases e)
    case GetAttributeRaises
    then show ?thesis using Cons.IH by simp
  next
    case (Href h)
    show ?thesis
    proof (cases h)
      case None
      then show ?thesis using Cons.IH Href by simp
    next
      case (Some u)
      obtain r w1 where g: "get_video_id_from_url env u w' = (r, w1)"
        by (cases "get_video_id_from_url env u w'")
      have w1: "same_ledger w w1 = same_ledger w w'"
        using same_ledger_get_video_id_from_url [of w env u w'] g by simp
      show ?thesis
      proof (cases r)
        case None
        then show ?thesis using Cons.IH Href Some g w1 by simp
      next
        case (Some v)
        obtain b w2 where i: "is_video_processed v w1 = (b, w2)"
          by (cases "is_video_processed v w1")
        have w2: "same_ledger w w2 = same_ledger w w'"
          using snd_is_video_processed [of v w1] i w1 by simp
        show ?thesis
          using Cons.IH Href \<open>h = Some u\<close> Some g w1 w2 i
          by (cases b) (simp_all add: Let_def split: bool.splits)
      qed
    qed
  qed
qed

lemma same_ledger_scroll_loop [simp]:
  "same_ledger w (snd (snd (scroll_loop env h n i k (l, f, w')))) = same_ledger w w'"
proof (induction k arbitrary: i l f w')
  case 0
  show ?case by simp
next
  case (Suc k)
  have step: "same_ledger w
                (snd (snd (case scan_elements env n es (l, f, w4) of
                             (l', f', w5) \<Rightarrow>
                               if n \<le> int (length l') then (l', f', log t1 lv1 w5)
                               else scroll_loop env h n (Suc i) k (l', f', log t2 lv2 w5))))
              = same_ledger w w'"
    if "same_ledger w w4 = same_ledger w w'" for es w4 t1 lv1 t2 lv2
  proof -
    obtain l' f' w5 where s: "scan_elements env n es (l, f, w4) = (l', f', w5)"
      by (cases "scan_elements env n es (l, f, w4)")
    have "same_ledger w w5 = same_ledger w w'"
      using same_ledger_scan_elements [of w env n es l f w4] s that by simp
    then show ?thesis
      using s Suc.IH by simp
  qed
  show ?case
    by (cases "scroll env i") (simp_all add: Let_def step Suc.IH)
qed

lemma same_ledger_get_video_links_from_tiktok [simp]:
  "same_ledger w (snd (get_video_links_from_tiktok env d h n k w')) = same_ledger w w'"
  by (simp add: get_video_links_from_tiktok_def Let_def case_prod_beta)

lemma same_ledger_setup_driver [simp]:
  "same_ledger w (snd (setup_driver env w')) = same_ledger w w'"
  by (simp add: setup_driver_def Let_def)

lemma same_ledger_quit_driver [simp]:
  "same_ledger w (quit_driver env w') = same_ledger w w'"
  by (simp add: quit_driver_def Let_def)

lemma same_ledger_scrape [simp]:
  "same_ledger w (snd (scrape_and_download_videos_by_hashtag env h n w')) = same_ledger w w'"
  by (simp add: scrape_and_download_videos_by_hashtag_def case_prod_beta
      split: bool.splits option.splits)

lemma same_ledger_video_filters [simp]:
  "same_ledger w (snd (video_filters eds v ow oh w')) = same_ledger w w'"
  by (simp add: video_filters_def Let_def split: option.splits)

lemma same_ledger_edit_failed [simp]:
  "same_ledger w (snd (edit_failed p q w')) = same_ledger w w'"
  by (simp add: edit_failed_def)

lemma same_ledger_transcode [simp]:
  "same_ledger w (snd (transcode env p v q fl w')) = same_ledger w w'"
  by (simp add: transcode_def Let_def os_remove_def split: run.splits)

lemma same_ledger_edit_video [simp]:
  "same_ledger w (snd (edit_video env p v e w')) = same_ledger w w'"
  by (simp add: edit_video_def Let_def case_prod_beta split: run.splits option.splits prod.splits)

lemma same_ledger_verify_downloaded_video [simp]:
  "same_ledger w (snd (verify_downloaded_video env p v w')) = same_ledger w w'"
  by (simp add: verify_downloaded_video_def Let_def os_remove_def split: run.splits)

subsection \<open>C6: loading the ledger\<close>

text \<open>
  What holds of the load: when the ledger file is absent and its directory can be
  created the result is the empty set and nothing changes; when the file exists and
  reading it raises, the exception is caught, one line is printed and the result is the
  empty set; and \<open>is_video_processed\<close> answers whether the id is in the loaded set.
\<close>

lemma load_absent_or_unreadable:
  "(ledger w = None \<and> \<not> makedirs_raises PROCESSED_VIDEOS_DIR w \<longrightarrow>
      get_processed_videos w = (Inr {}, w))
   \<and> (ledger w \<noteq> None \<and> ledger_read_fails w \<longrightarrow>
        get_processed_videos w = (Inr {}, emit (PRINT ''Error loading processed videos: {e}'') w))
   \<and> (fst (get_processed_videos w) = Inr ids \<longrightarrow>
        fst (is_video_processed video_id w) = Inr (video_id \<in> ids))"
  by (auto simp: get_processed_videos_def is_video_processed_eq split: option.splits)

text \<open>
  Claim C6 says that loading from a file that does not exist returns the empty set
  without raising. In \<^verbatim>\<open>get_processed_videos\<close> the call \<^verbatim>\<open>os.makedirs\<close> of line 19 stands
  before the \<^verbatim>\<open>try\<close> of line 21. In a world without ledger file in which the directory
  \<^verbatim>\<open>data\<close> cannot be created, the \<^verbatim>\<open>OSError\<close> leaves \<^verbatim>\<open>get_processed_videos\<close>, and
  \<^verbatim>\<open>is_video_processed\<close> with it. \<^verbatim>\<open>add_processed_video\<close>, which makes the same call inside
  its \<^verbatim>\<open>try\<close>, returns \<^verbatim>\<open>False\<close> there.
\<close>

theorem load_raises_without_directory:
  "ledger (world0\<lparr>uncreatable := {''data''}\<rparr>) = None
   \<and> fst (get_processed_videos (world0\<lparr>uncreatable := {''data''}\<rparr>)) = Inl OSError
   \<and> fst (is_video_processed ''7300000000000000001'' (world0\<lparr>uncreatable := {''data''}\<rparr>))
       = Inl OSError
   \<and> fst (add_processed_video ''7300000000000000001'' (world0\<lparr>uncreatable := {''data''}\<rparr>))
       = False"
  by (simp add: world0_def get_processed_videos_def is_video_processed_eq add_processed_video_def
      makedirs_raises_def PROCESSED_VIDEOS_DIR_def)

subsection \<open>C4: the crop stage\<close>

text \<open>
  The crop stage is built only for \<open>0 < crop_percent < 50\<close>; for any other value, and for
  an absent key, the filter list is the optional flip alone.
\<close>

lemma no_crop_outside_range:
  "\<not> (0 < (case crop_percent eds of None \<Rightarrow> 0 | Some p \<Rightarrow> p)
       \<and> (case crop_percent eds of None \<Rightarrow> 0 | Some p \<Rightarrow> p) < 50) \<Longrightarrow>
   video_filters eds video_id original_width original_height w =
     (if mirror eds = Some True
      then (Some [''hflip''], log ''Applying horizontal flip (mirroring) with FFmpeg...'' DEBUG w)
      else (Some [], w))"
  by (cases "crop_percent eds") (auto simp: video_filters_def Let_def)

text \<open>The examples of the specification, evaluated on the code.\<close>

lemma crop_examples:
  "fst (video_filters \<lparr>mirror = Some False, crop_percent = Some 2\<rparr> ''v'' 1000 500 world0)
     = Some [''crop=960:480:20:10'']"
  "fst (video_filters \<lparr>mirror = Some False, crop_percent = Some 0\<rparr> ''v'' 1000 500 world0) = Some []"
  "fst (video_filters \<lparr>mirror = Some False, crop_percent = Some 51\<rparr> ''v'' 1000 500 world0) = Some []"
  "fst (video_filters \<lparr>mirror = Some False, crop_percent = Some 2\<rparr> ''v'' 999 500 world0)
     = Some [''crop=960:480:19:10'']"
  "fst (video_filters \<lparr>mirror = Some False, crop_percent = Some 2\<rparr> ''v'' 1 500 world0) = Some []"
  "out (snd (video_filters \<lparr>mirror = Some False, crop_percent = Some 2\<rparr> ''v'' 1 500 world0))
     = [LOG WARNING ''Crop dimensions result in invalid output size for v. Skipping crop.'']"
  by code_simp+

text \<open>
  Claim C4, at an input where the code departs from it. For a video of 720 by 1280
  and \<open>crop_percent = 35\<close> the claim gives \<open>cut_w = floor (720 * 35 / 100) = 252\<close> and the
  stage \<^verbatim>\<open>crop=216:384:252:448\<close>. The code computes \<^verbatim>\<open>int(720 * (35 / 100.0))\<close> in double
  precision: \<^verbatim>\<open>35 / 100.0\<close> is the double just below 0.35, the product rounds to
  251.99999999999997, and \<^verbatim>\<open>int\<close> cuts it to 251. The stage it builds is
  \<^verbatim>\<open>crop=218:384:251:448\<close>. The same happens for a width of 100 at 29 percent.
\<close>

theorem crop_cut_is_truncated_float:
  "crop_each_side 720 35 = Some 251
   \<and> (720 * 35) div 100 = (252 :: int)
   \<and> fst (video_filters \<lparr>mirror = Some False, crop_percent = Some 35\<rparr> ''v'' 720 1280 world0)
       = Some [''crop=218:384:251:448'']
   \<and> crop_each_side 100 29 = Some 28
   \<and> (100 * 29) div 100 = (29 :: int)"
  by code_simp

subsection \<open>C10: the defaults of the transform\<close>












subsection \<open>C8: ffprobe is not installed\<close>

text \<open>
  Claim C8. When every invocation of ffprobe raises \<^verbatim>\<open>FileNotFoundError\<close>: the check inside
  \<^verbatim>\<open>download_video\<close> logs a CRITICAL and a WARNING message and returns the path, leaving
  the files as they are; \<^verbatim>\<open>verify_downloaded_video\<close> returns \<^verbatim>\<open>True\<close> on a file that is
  not empty and keeps it; and \<^verbatim>\<open>download_video\<close>, for an id that is not in the loaded
  ledger, a download folder that can be created and a yt-dlp run that exits with code 0
  and leaves a file that is not empty, returns the path of that file, with the files
  exactly as yt-dlp left them.
\<close>

theorem missing_probe_keeps_download:
  assumes "\<And>filepath fs. ffprobe_codec env filepath fs = FileNotFoundError"
  shows "verify_download env video_id filepath w =
           (Some filepath,
            log ''Please ensure FFmpeg is installed and in PATH. The downloaded file will be kept but may be corrupt.''
              WARNING
              (log ''CRITICAL: ffprobe (part of FFmpeg) not found in PATH. Cannot verify video integrity.''
                 CRITICAL
                 (log (''Video '' @ video_id @ '' downloaded by yt-dlp. Verifying integrity with ffprobe...'')
                    DEBUG w)))
         \<and> (exists_nonempty filepath w \<longrightarrow>
              fst (verify_downloaded_video env filepath video_id w) = True
              \<and> files (snd (verify_downloaded_video env filepath video_id w)) = files w
              \<and> LOG CRITICAL ''CRITICAL: ffprobe (part of FFmpeg) not found in PATH. Cannot verify video integrity.''
                  \<in> set (out (snd (verify_downloaded_video env filepath video_id w))))
         \<and> (fst (get_processed_videos w) = Inr ids \<and> video_id \<notin> ids
              \<and> \<not> makedirs_raises VIDEOS_DOWNLOAD_DIR w
              \<and> yt_dlp env (path_join VIDEOS_DOWNLOAD_DIR (video_id @ ''.mp4'')) video_url (files w)
                  = Exited 0 stdout fs
              \<and> exists_nonempty (path_join VIDEOS_DOWNLOAD_DIR (video_id @ ''.mp4'')) (w\<lparr>files := fs\<rparr>) \<longrightarrow>
              fst (download_video env video_id video_url w)
                = Inr (Some (path_join VIDEOS_DOWNLOAD_DIR (video_id @ ''.mp4'')))
              \<and> files (snd (download_video env video_id video_url w)) = fs
              \<and> out (snd (download_video env video_id video_url w))
                  = out (snd (get_processed_videos w))
                    @ [LOG INFO (''Attempting to download video: '' @ video_id @ '' from '' @ video_url
                                 @ '' using yt-dlp...''),
                       LOG DEBUG (''Video '' @ video_id
                                  @ '' downloaded by yt-dlp. Verifying integrity with ffprobe...''),
                       LOG CRITICAL ''CRITICAL: ffprobe (part of FFmpeg) not found in PATH. Cannot verify video integrity.'',
                       LOG WARNING ''Please ensure FFmpeg is installed and in PATH. The downloaded file will be kept but may be corrupt.''])"
proof (intro conjI impI)
  show "verify_download env video_id filepath w =
           (Some filepath,
            log ''Please ensure FFmpeg is installed and in PATH. The downloaded file will be kept but may be corrupt.''
              WARNING
              (log ''CRITICAL: ffprobe (part of FFmpeg) not found in PATH. Cannot verify video integrity.''
                 CRITICAL
                 (log (''Video '' @ video_id @ '' downloaded by yt-dlp. Verifying integrity with ffprobe...'')
                    DEBUG w)))"
    by (simp add: verify_download_def assms Let_def)
next
  assume "exists_nonempty filepath w"
  then show "fst (verify_downloaded_video env filepath video_id w) = True"
    and "files (snd (verify_downloaded_video env filepath video_id w)) = files w"
    and "LOG CRITICAL ''CRITICAL: ffprobe (part of FFmpeg) not found in PATH. Cannot verify video integrity.''
                  \<in> set (out (snd (verify_downloaded_video env filepath video_id w)))"
    by (simp_all add: verify_downloaded_video_def assms Let_def)
next
  let ?filepath = "path_join VIDEOS_DOWNLOAD_DIR (video_id @ ''.mp4'')"
  assume a: "fst (get_processed_videos w) = Inr ids \<and> video_id \<notin> ids
              \<and> \<not> makedirs_raises VIDEOS_DOWNLOAD_DIR w
              \<and> yt_dlp env ?filepath video_url (files w) = Exited 0 stdout fs
              \<and> exists_nonempty ?filepath (w\<lparr>files := fs\<rparr>)"
  have i: "is_video_processed video_id w = (Inr False, snd (get_processed_videos w))"
    using a by (simp add: is_video_processed_eq)
  have f: "files (snd (get_processed_videos w)) = files w"
    by simp
  have m: "\<not> makedirs_raises VIDEOS_DOWNLOAD_DIR (snd (get_processed_videos w))"
    using a by (simp add: makedirs_raises_def)
  have e: "exists_nonempty ?filepath (w'\<lparr>files := fs\<rparr>)" for w' :: world
    using a by (simp add: exists_nonempty_def)
  show "fst (download_video env video_id video_url w) = Inr (Some ?filepath)"
    and "files (snd (download_video env video_id video_url w)) = fs"
    and "out (snd (download_video env video_id video_url w))
                  = out (snd (get_processed_videos w))
                    @ [LOG INFO (''Attempting to download video: '' @ video_id @ '' from '' @ video_url
                                 @ '' using yt-dlp...''),
                       LOG DEBUG (''Video '' @ video_id
                                  @ '' downloaded by yt-dlp. Verifying integrity with ffprobe...''),
                       LOG CRITICAL ''CRITICAL: ffprobe (part of FFmpeg) not found in PATH. Cannot verify video integrity.'',
                       LOG WARNING ''Please ensure FFmpeg is installed and in PATH. The downloaded file will be kept but may be corrupt.'']"
    using a by (simp_all add: download_video_def i f e m Let_def verify_download_def assms)
qed

theorem missing_probe_keeps_download_witness:
  "fst (download_video env_no_ffprobe id1 url1 world0)
     = Inr (Some ''videos/7300000000000000001.mp4'')
   \<and> files (snd (download_video env_no_ffprobe id1 url1 world0)) ''videos/7300000000000000001.mp4''
       = Some 1000
   \<and> fst (verify_downloaded_video env_no_ffprobe ''videos/7300000000000000001.mp4'' id1
            (world0\<lparr>files := [''videos/7300000000000000001.mp4'' \<mapsto> 1000]\<rparr>)) = True"
  using missing_probe_keeps_download [where env = env_no_ffprobe and video_id = id1
      and video_url = url1 and w = world0 and stdout = "[]" and ids = "{}"
      and fs = "[''videos/7300000000000000001.mp4'' \<mapsto> 1000]"]
    missing_probe_keeps_download [where env = env_no_ffprobe and video_id = id1
      and filepath = "''videos/7300000000000000001.mp4''"
      and w = "world0\<lparr>files := [''videos/7300000000000000001.mp4'' \<mapsto> 1000]\<rparr>"]
  by (simp add: env_no_ffprobe_def env0_def world0_def id1_def url1_def get_processed_videos_def
      path_join_def VIDEOS_DOWNLOAD_DIR_def exists_nonempty_def makedirs_raises_def)

subsection \<open>C3: the ledger check of the download\<close>




end
